theory Spec2Isabelle
  imports Main
begin

section \<open>The authentication client (client/src/components/AuthClient.ts)\<close>

text \<open>
  The module keeps one variable, \<^verbatim>\<open>_user\<close>, and wraps the requests of the
  authentication API. Its functions are \<^verbatim>\<open>async\<close>: the model below makes the
  state explicit (the variable and the list of requests handed to \<^verbatim>\<open>fetch\<close>),
  turns every \<^verbatim>\<open>throw\<close> and every rejected promise into a value \<open>Inl e\<close>, and
  takes the network and the page as an environment.
\<close>

subsection \<open>Status codes\<close>

datatype VerifyStatusCode =
  Verify_Success | Verify_AlreadyVerified | Verify_Failure | Verify_Expired | Verify_Unknown

fun VerifyStatusCode_value :: "VerifyStatusCode \<Rightarrow> int" where
  "VerifyStatusCode_value Verify_Success = 200"
| "VerifyStatusCode_value Verify_AlreadyVerified = 208"
| "VerifyStatusCode_value Verify_Failure = 400"
| "VerifyStatusCode_value Verify_Expired = 404"
| "VerifyStatusCode_value Verify_Unknown = 500"

datatype ResetStatusCode =
  Reset_Success | Reset_Accepted | Reset_Invalid | Reset_Expired | Reset_Unknown

fun ResetStatusCode_value :: "ResetStatusCode \<Rightarrow> int" where
  "ResetStatusCode_value Reset_Success = 200"
| "ResetStatusCode_value Reset_Accepted = 202"
| "ResetStatusCode_value Reset_Invalid = 400"
| "ResetStatusCode_value Reset_Expired = 410"
| "ResetStatusCode_value Reset_Unknown = 500"

subsection \<open>Strings\<close>

text \<open>
  A \<open>string\<close> stands for a JavaScript string whose UTF-16 code units are all below 256
  (the Latin-1 range): the character \<open>c\<close> is the code unit \<open>of_char c\<close>.
\<close>

definition lower_char :: "char \<Rightarrow> char" where
  "lower_char c =
     (let n = (of_char c :: nat)
      in if (65 \<le> n \<and> n \<le> 90) \<or> (192 \<le> n \<and> n \<le> 222 \<and> n \<noteq> 215)
         then char_of (n + 32) else c)"

text \<open>\<^verbatim>\<open>String.prototype.toLowerCase\<close>: A to Z, and the capital letters of
  Latin-1 (U+00C0 to U+00DE without the multiplication sign U+00D7), move up by 32.\<close>

definition toLowerCase :: "string \<Rightarrow> string" where
  "toLowerCase s = map lower_char s"

definition hex_digit :: "nat \<Rightarrow> char" where
  "hex_digit d = (if d < 10 then char_of (48 + d) else char_of (55 + d))"

definition percent_byte :: "nat \<Rightarrow> string" where
  "percent_byte b = [CHR ''%'', hex_digit (b div 16), hex_digit (b mod 16)]"

definition uri_unreserved :: "char \<Rightarrow> bool" where
  "uri_unreserved c =
     (let n = (of_char c :: nat)
      in (65 \<le> n \<and> n \<le> 90) \<or> (97 \<le> n \<and> n \<le> 122) \<or> (48 \<le> n \<and> n \<le> 57)
         \<or> c \<in> set ''-_.!~*'()'')"

text \<open>\<^verbatim>\<open>encodeURIComponent\<close>: every other code unit is written as the bytes of
  its UTF-8 encoding, one for a code unit below 128 and two from 128 to 255.\<close>

definition encode_char :: "char \<Rightarrow> string" where
  "encode_char c =
     (let n = (of_char c :: nat)
      in if uri_unreserved c then [c]
         else if n < 128 then percent_byte n
         else percent_byte (192 + n div 64) @ percent_byte (128 + n mod 64))"

definition encodeURIComponent :: "string \<Rightarrow> string" where
  "encodeURIComponent s = concat (map encode_char s)"

text \<open>\<^verbatim>\<open>Array.prototype.join\<close>.\<close>

fun join :: "string \<Rightarrow> string list \<Rightarrow> string" where
  "join sep [] = []"
| "join sep [x] = x"
| "join sep (x # y # ys) = x @ sep @ join sep (y # ys)"

fun digit_char :: "nat \<Rightarrow> char" where
  "digit_char n = char_of (48 + n)"

text \<open>The decimal numeral of an array index, as a property name.\<close>

fun index_key :: "nat \<Rightarrow> string" where
  "index_key n =
     (if n < 10 then [digit_char n] else index_key (n div 10) @ [digit_char (n mod 10)])"

subsection \<open>Values, requests and responses\<close>

text \<open>A parsed JSON body. Numbers are the integers: the status codes, identifiers and
  limits of the API.\<close>

datatype json =
  JNull | JBool bool | JNum int | JStr string | JArr "json list" | JObj "(string \<times> json) list"

datatype jsval = Undefined | Val json

text \<open>What the client reads of a \<^verbatim>\<open>Response\<close>: \<^verbatim>\<open>ok\<close>,
  \<^verbatim>\<open>type\<close>, and what \<^verbatim>\<open>json()\<close> settles to: \<open>Inr j\<close> when the body
  parses to \<open>j\<close>, \<open>Inl m\<close> when it does not and the promise rejects with a
  \<^verbatim>\<open>SyntaxError\<close> of message \<open>m\<close>.\<close>

record response =
  ok :: bool
  resp_type :: string
  json_body :: "string + json"

text \<open>What \<^verbatim>\<open>fetch\<close> rejects with: an \<^verbatim>\<open>Error\<close> object with its message,
  or any other value.\<close>

datatype rejection = ErrorValue string | OtherValue

datatype fetch_outcome = Responds response | Rejects rejection

text \<open>Modelled from the spec: \<^verbatim>\<open>NetworkError\<close> (module error-reporting is
  not among the sources) is the distinct error kind for transport failures; it is an
  \<^verbatim>\<open>Error\<close> and carries the message it was built with. The other three are the
  language's own.\<close>

datatype exn = NetworkError string | Error string | TypeError string | SyntaxError string

fun message :: "exn \<Rightarrow> string" where
  "message (NetworkError m) = m"
| "message (Error m) = m"
| "message (TypeError m) = m"
| "message (SyntaxError m) = m"

fun instanceof_Error :: "exn \<Rightarrow> bool" where
  "instanceof_Error e = True"

text \<open>The second argument of \<^verbatim>\<open>fetch\<close>, with its URL; \<open>http_method\<close> is
  its property \<^verbatim>\<open>method\<close>. A property that is left out is \<open>None\<close>.\<close>

record request =
  url :: string
  http_method :: string
  mode :: string
  body :: "string option"
  headers :: "(string \<times> string) list"
  credentials :: "string option"

text \<open>The object \<^verbatim>\<open>fetchUser\<close> builds; \<open>user_id\<close> and \<open>user_type\<close> are
  its properties \<^verbatim>\<open>id\<close> and \<^verbatim>\<open>type\<close>.\<close>

record JustfixUser =
  email :: jsval
  verified :: jsval
  user_id :: jsval
  user_type :: jsval
  subscriptions :: "json list"
  subscriptionLimit :: jsval

text \<open>The state: the module variable \<^verbatim>\<open>_user\<close> and the requests handed to
  \<^verbatim>\<open>fetch\<close> so far, oldest first.\<close>

record world =
  user_var :: "JustfixUser option"
  sent :: "request list"

text \<open>The environment: the configured base URL (with its trailing slash), the network
  (what \<^verbatim>\<open>fetch\<close> settles to for a request, given the requests made before it)
  and the page (\<^verbatim>\<open>new URLSearchParams(window.location.search).get\<close>).\<close>

record env =
  BASE_URL :: string
  respond :: "request list \<Rightarrow> request \<Rightarrow> fetch_outcome"
  search_params :: "string \<Rightarrow> string option"

text \<open>What \<^verbatim>\<open>postAuthRequest\<close> returns: the parsed body, or the response itself.\<close>

datatype reply = Parsed json | RawResponse response

fun truthy :: "reply \<Rightarrow> bool" where
  "truthy (Parsed JNull) = False"
| "truthy (Parsed (JBool b)) = b"
| "truthy (Parsed (JNum n)) = (n \<noteq> 0)"
| "truthy (Parsed (JStr s)) = (s \<noteq> [])"
| "truthy (Parsed (JArr xs)) = True"
| "truthy (Parsed (JObj kvs)) = True"
| "truthy (RawResponse r) = True"

text \<open>Property access \<^verbatim>\<open>v[k]\<close>, for the names the client reads (none of them is a
  property of a prototype): reading from \<^verbatim>\<open>null\<close> throws, a missing property is
  \<^verbatim>\<open>undefined\<close>, and of these names a \<^verbatim>\<open>Response\<close> has only
  \<^verbatim>\<open>type\<close>.\<close>

fun get_prop :: "reply \<Rightarrow> string \<Rightarrow> exn + jsval" where
  "get_prop (Parsed JNull) k =
     Inl (TypeError (''Cannot read properties of null (reading '' @ [CHR 0x27] @ k
                     @ [CHR 0x27] @ '')''))"
| "get_prop (Parsed (JObj kvs)) k = Inr (case map_of kvs k of None \<Rightarrow> Undefined | Some v \<Rightarrow> Val v)"
| "get_prop (Parsed (JBool b)) k = Inr Undefined"
| "get_prop (Parsed (JNum n)) k = Inr Undefined"
| "get_prop (Parsed (JStr s)) k = Inr Undefined"
| "get_prop (Parsed (JArr xs)) k = Inr Undefined"
| "get_prop (RawResponse r) k = Inr (if k = ''type'' then Val (JStr (resp_type r)) else Undefined)"

text \<open>The object spread \<^verbatim>\<open>{ ...s }\<close>: a new object with the own enumerable
  properties of \<open>s\<close>.\<close>

fun spread :: "json \<Rightarrow> json" where
  "spread (JObj kvs) = JObj kvs"
| "spread (JArr xs) = JObj (zip (map index_key [0..<length xs]) xs)"
| "spread (JStr cs) = JObj (zip (map index_key [0..<length cs]) (map (\<lambda>c. JStr [c]) cs))"
| "spread JNull = JObj []"
| "spread (JBool b) = JObj []"
| "spread (JNum n) = JObj []"

text \<open>\<^verbatim>\<open>Response.json()\<close>.\<close>

definition json_of :: "response \<Rightarrow> exn + json" where
  "json_of r = (case json_body r of Inl m \<Rightarrow> Inl (SyntaxError m) | Inr j \<Rightarrow> Inr j)"

subsection \<open>The request helpers\<close>

text \<open>An awaited call is modelled from its start to the settlement of its promise, with
  no other call of the client in between: a function takes the state at the call and
  returns what the promise settles to (\<open>Inl e\<close> when it rejects with \<open>e\<close>) and the
  state then.\<close>

text \<open>
  \<^verbatim>\<open>
  const friendlyFetch: typeof fetch = async (input, init) => {
    let response: Response;
    try {
      response = await fetch(input, init);
      console.log(response);
    } catch (e) {
      if (e instanceof Error) { throw new NetworkError(e.message); }
      else { throw new Error("Unexpected error"); }
    }
    return response;
  };
  \<close>
\<close>

definition friendlyFetch :: "env \<Rightarrow> request \<Rightarrow> world \<Rightarrow> (exn + response) \<times> world" where
  "friendlyFetch E req s =
     (case respond E (sent s) req of
        Responds response \<Rightarrow> Inr response
      | Rejects (ErrorValue m) \<Rightarrow> Inl (NetworkError m)
      | Rejects OtherValue \<Rightarrow> Inl (Error ''Unexpected error''),
      s\<lparr>sent := sent s @ [req]\<rparr>)"

definition form_body :: "(string \<times> string) list option \<Rightarrow> string" where
  "form_body params =
     (case params of
        Some kvs \<Rightarrow> join ''&'' (map (\<lambda>(k, v). k @ ''='' @ encodeURIComponent v) kvs)
      | None \<Rightarrow> [])"

text \<open>The headers \<^verbatim>\<open>{ "Content-Type": ..., ...headers }\<close>: a later property of
  the same name replaces the value and keeps the place.\<close>

fun set_header :: "string \<Rightarrow> string \<Rightarrow> (string \<times> string) list \<Rightarrow> (string \<times> string) list" where
  "set_header k v [] = [(k, v)]"
| "set_header k v ((k', v') # hs) =
     (if k = k' then (k, v) # hs else (k', v') # set_header k v hs)"

definition request_headers :: "(string \<times> string) list option \<Rightarrow> (string \<times> string) list" where
  "request_headers hs =
     foldl (\<lambda>acc (k, v). set_header k v acc)
       [(''Content-Type'', ''application/x-www-form-urlencoded'')]
       (case hs of None \<Rightarrow> [] | Some h \<Rightarrow> h)"

definition post_request ::
  "string \<Rightarrow> (string \<times> string) list option \<Rightarrow> (string \<times> string) list option \<Rightarrow> string
   \<Rightarrow> request" where
  "post_request u params hs m =
     \<lparr>url = u, http_method = m, mode = ''cors'', body = Some (form_body params),
      headers = request_headers hs, credentials = Some ''include''\<rparr>"

text \<open>\<^verbatim>\<open>postAuthRequest(url, params?, headers?, method = "POST")\<close>: both branches
  on \<^verbatim>\<open>result.ok\<close> read the body, and a body that does not parse gives the
  response itself.\<close>

definition postAuthRequest ::
  "env \<Rightarrow> string \<Rightarrow> (string \<times> string) list option \<Rightarrow> (string \<times> string) list option \<Rightarrow> string
   \<Rightarrow> world \<Rightarrow> (exn + reply) \<times> world" where
  "postAuthRequest E u params hs m s =
     (case friendlyFetch E (post_request u params hs m) s of
        (Inl e, s') \<Rightarrow> (Inl e, s')
      | (Inr result, s') \<Rightarrow>
          (case (if ok result then json_of result else json_of result) of
             Inr j \<Rightarrow> (Inr (Parsed j), s')
           | Inl e \<Rightarrow> (Inr (RawResponse result), s')))"

text \<open>\<^verbatim>\<open>postLoginCredentials\<close>: the same request, and
  \<^verbatim>\<open>return await result.json()\<close> with no \<^verbatim>\<open>try\<close> around it.\<close>

definition postLoginCredentials ::
  "env \<Rightarrow> string \<Rightarrow> (string \<times> string) list option \<Rightarrow> (string \<times> string) list option \<Rightarrow> string
   \<Rightarrow> world \<Rightarrow> (exn + reply) \<times> world" where
  "postLoginCredentials E u params hs m s =
     (case friendlyFetch E (post_request u params hs m) s of
        (Inl e, s') \<Rightarrow> (Inl e, s')
      | (Inr result, s') \<Rightarrow>
          (case json_of result of
             Inr j \<Rightarrow> (Inr (Parsed j), s')
           | Inl e \<Rightarrow> (Inl e, s')))"

subsection \<open>The cached user\<close>

definition user :: "world \<Rightarrow> JustfixUser option" where
  "user s = user_var s"

definition setUser :: "JustfixUser \<Rightarrow> world \<Rightarrow> JustfixUser \<times> world" where
  "setUser u s = (u, s\<lparr>user_var := Some u\<rparr>)"

definition clearUser :: "world \<Rightarrow> world" where
  "clearUser s = s\<lparr>user_var := None\<rparr>"

text \<open>\<^verbatim>\<open>userAuthenticated\<close>: the authentication check.\<close>

definition userAuthenticated :: "env \<Rightarrow> world \<Rightarrow> (exn + reply) \<times> world" where
  "userAuthenticated E s = postAuthRequest E (BASE_URL E @ ''auth/auth_check'') None None ''POST'' s"

definition and_then :: "exn + 'a \<Rightarrow> ('a \<Rightarrow> exn + 'b) \<Rightarrow> exn + 'b" where
  "and_then r f = (case r of Inl e \<Rightarrow> Inl e | Inr v \<Rightarrow> f v)"

text \<open>\<^verbatim>\<open>authCheck["subscriptions"]?.map((s: any) => { return { ...s }; }) || []\<close>:
  the optional chain stops at \<^verbatim>\<open>undefined\<close> and \<^verbatim>\<open>null\<close> only; any other
  value that is not an array has no function \<^verbatim>\<open>map\<close>, and the call throws.\<close>

definition copy_subscriptions :: "reply \<Rightarrow> exn + json list" where
  "copy_subscriptions authCheck =
     and_then (get_prop authCheck ''subscriptions'')
       (\<lambda>v. case v of
               Undefined \<Rightarrow> Inr []
             | Val JNull \<Rightarrow> Inr []
             | Val (JArr xs) \<Rightarrow> Inr (map spread xs)
             | Val _ \<Rightarrow> Inl (TypeError ''authCheck.subscriptions?.map is not a function''))"

definition new_user :: "reply \<Rightarrow> exn + JustfixUser" where
  "new_user authCheck =
     and_then (copy_subscriptions authCheck) (\<lambda>subs.
     and_then (get_prop authCheck ''email'') (\<lambda>e.
     and_then (get_prop authCheck ''verified'') (\<lambda>v.
     and_then (get_prop authCheck ''id'') (\<lambda>i.
     and_then (get_prop authCheck ''type'') (\<lambda>t.
     and_then (get_prop authCheck ''subscription_limit'') (\<lambda>l.
       Inr \<lparr>email = e, verified = v, user_id = i, user_type = t, subscriptions = subs,
            subscriptionLimit = l\<rparr>))))))"

text \<open>
  \<^verbatim>\<open>
  const fetchUser = async () => {
    if (!_user) {
      const authCheck = await userAuthenticated();
      if (!!authCheck) { const subscriptions = ...; _user = { ... }; }
      else { clearUser(); }
    }
    return _user;
  };
  \<close>
  The call runs up to its \<^verbatim>\<open>await\<close>, where the request has been handed to
  \<^verbatim>\<open>fetch\<close>, and gives back a promise; the rest runs when the check has settled,
  on the state of that moment. \<open>fetchUser_call\<close> is the first part,
  \<open>fetchUser_resume\<close> the second, and \<open>fetchUser\<close> the two with nothing in
  between, which is the awaited call.
\<close>

datatype 'a promise = Fulfilled 'a | Pending "world \<Rightarrow> (exn + 'a) \<times> world"

definition fetchUser_resume ::
  "exn + reply \<Rightarrow> world \<Rightarrow> (exn + JustfixUser option) \<times> world" where
  "fetchUser_resume r s =
     (case r of
        Inl e \<Rightarrow> (Inl e, s)
      | Inr authCheck \<Rightarrow>
          if truthy authCheck then
            (case new_user authCheck of
               Inl e \<Rightarrow> (Inl e, s)
             | Inr u \<Rightarrow> (let s' = s\<lparr>user_var := Some u\<rparr> in (Inr (user_var s'), s')))
          else (let s' = clearUser s in (Inr (user_var s'), s')))"

definition fetchUser_call :: "env \<Rightarrow> world \<Rightarrow> JustfixUser option promise \<times> world" where
  "fetchUser_call E s =
     (if user_var s = None then
        (case userAuthenticated E s of (r, s') \<Rightarrow> (Pending (fetchUser_resume r), s'))
      else (Fulfilled (user_var s), s))"

definition await :: "'a promise \<Rightarrow> world \<Rightarrow> (exn + 'a) \<times> world" where
  "await p s = (case p of Fulfilled v \<Rightarrow> (Inr v, s) | Pending k \<Rightarrow> k s)"

definition fetchUser :: "env \<Rightarrow> world \<Rightarrow> (exn + JustfixUser option) \<times> world" where
  "fetchUser E s = (case fetchUser_call E s of (p, s') \<Rightarrow> await p s')"

subsection \<open>The operations\<close>

text \<open>\<^verbatim>\<open>register\<close> calls \<^verbatim>\<open>fetchUser()\<close> and does not await it: its promise
  resolves with the body of the registration right after the synchronous part of that
  call. The result is what the promise settles to, the state at that moment, and the
  promise of the call of \<^verbatim>\<open>fetchUser\<close>, when it was made.\<close>

definition register ::
  "env \<Rightarrow> string \<Rightarrow> string \<Rightarrow> string \<Rightarrow> world
   \<Rightarrow> (exn + reply) \<times> world \<times> JustfixUser option promise option" where
  "register E username password userType s =
     (case postAuthRequest E (BASE_URL E @ ''auth/register'')
             (Some [(''username'', toLowerCase username), (''password'', password),
                    (''user_type'', userType)]) None ''POST'' s of
        (Inl e, s') \<Rightarrow> (Inl e, s', None)
      | (Inr json, s') \<Rightarrow>
          (case fetchUser_call E s' of (p, s'') \<Rightarrow> (Inr json, s'', Some p)))"

definition login :: "env \<Rightarrow> string \<Rightarrow> string \<Rightarrow> world \<Rightarrow> (exn + reply) \<times> world" where
  "login E username password s =
     postLoginCredentials E (BASE_URL E @ ''auth/login'')
       (Some [(''username'', toLowerCase username), (''password'', password)]) None ''POST'' s"

definition logout :: "env \<Rightarrow> world \<Rightarrow> (exn + reply) \<times> world" where
  "logout E s = postAuthRequest E (BASE_URL E @ ''auth/logout'') None None ''POST'' s"

text \<open>A template literal writes \<^verbatim>\<open>null\<close> as the text null.\<close>

definition template :: "string option \<Rightarrow> string" where
  "template v = (case v of None \<Rightarrow> ''null'' | Some x \<Rightarrow> x)"

text \<open>An optional string argument is \<open>None\<close> when it is left out; it is truthy when
  it is given and not empty.\<close>

definition given :: "string option \<Rightarrow> bool" where
  "given v = (case v of None \<Rightarrow> False | Some x \<Rightarrow> x \<noteq> [])"

text \<open>\<^verbatim>\<open>try { ...; return true; } catch { return false; }\<close>\<close>

definition succeeded :: "(exn + 'a) \<times> world \<Rightarrow> (exn + bool) \<times> world" where
  "succeeded rs = (case rs of (Inl e, s') \<Rightarrow> (Inr False, s') | (Inr v, s') \<Rightarrow> (Inr True, s'))"

definition resetPasswordRequest :: "env \<Rightarrow> string option \<Rightarrow> world \<Rightarrow> (exn + bool) \<times> world" where
  "resetPasswordRequest E username s =
     succeeded
       (if given username then
          postAuthRequest E (BASE_URL E @ ''auth/reset_password_request'')
            (Some [(''username'', toLowerCase (the username))]) None ''POST'' s
        else
          postAuthRequest E
            (BASE_URL E @ ''auth/reset_password_request_with_token?token=''
               @ template (search_params E ''token''))
            None None ''POST'' s)"

record VerifyEmailResponse =
  statusCode :: jsval
  statusText :: jsval
  error :: "string option"

type_synonym PasswordResetResponse = VerifyEmailResponse

text \<open>The body of the \<^verbatim>\<open>try\<close> after the request, and the \<^verbatim>\<open>catch\<close>:
  \<^verbatim>\<open>
    result.statusCode = response.status_code;
    result.statusText = response.status_text;
  } catch (e) {
    if (e instanceof Error) { result.error = e.message; }
  }
  return result;
  \<close>
\<close>

definition catch_error :: "exn \<Rightarrow> VerifyEmailResponse \<Rightarrow> VerifyEmailResponse" where
  "catch_error e result = (if instanceof_Error e then result\<lparr>error := Some (message e)\<rparr> else result)"

definition copy_status :: "exn + reply \<Rightarrow> VerifyEmailResponse \<Rightarrow> VerifyEmailResponse" where
  "copy_status r result =
     (case r of
        Inl e \<Rightarrow> catch_error e result
      | Inr response \<Rightarrow>
          (case get_prop response ''status_code'' of
             Inl e \<Rightarrow> catch_error e result
           | Inr c \<Rightarrow>
               (case get_prop response ''status_text'' of
                  Inl e \<Rightarrow> catch_error e (result\<lparr>statusCode := c\<rparr>)
                | Inr t \<Rightarrow> result\<lparr>statusCode := c, statusText := t\<rparr>)))"

definition resetPasswordCheck :: "env \<Rightarrow> world \<Rightarrow> (exn + PasswordResetResponse) \<times> world" where
  "resetPasswordCheck E s =
     (let result = \<lparr>statusCode = Val (JNum (ResetStatusCode_value Reset_Unknown)),
                    statusText = Val (JStr []), error = None\<rparr>
      in case postAuthRequest E
                (BASE_URL E @ ''auth/reset_password/check?token=''
                   @ template (search_params E ''token''))
                None None ''POST'' s of
           (r, s') \<Rightarrow> (Inr (copy_status r result), s'))"

definition resetPassword ::
  "env \<Rightarrow> string \<Rightarrow> string \<Rightarrow> world \<Rightarrow> (exn + PasswordResetResponse) \<times> world" where
  "resetPassword E token newPassword s =
     (let result = \<lparr>statusCode = Val (JNum (ResetStatusCode_value Reset_Unknown)),
                    statusText = Val (JStr []), error = None\<rparr>
      in case postAuthRequest E (BASE_URL E @ ''auth/set_password?token='' @ token)
                (Some [(''new_password'', newPassword)]) None ''POST'' s of
           (r, s') \<Rightarrow> (Inr (copy_status r result), s'))"

definition verifyEmail :: "env \<Rightarrow> world \<Rightarrow> (exn + VerifyEmailResponse) \<times> world" where
  "verifyEmail E s =
     (let code = search_params E ''code'';
          utm_source = (case search_params E ''utm_source'' of None \<Rightarrow> [] | Some x \<Rightarrow> x);
          result = \<lparr>statusCode = Val (JNum (VerifyStatusCode_value Verify_Unknown)),
                    statusText = Val (JStr []), error = None\<rparr>;
          url0 = BASE_URL E @ ''auth/verify_email?code='' @ template code;
          url1 = (if utm_source \<noteq> [] then url0 @ ''&utm_source='' @ utm_source else url0)
      in case postAuthRequest E url1 None None ''POST'' s of
           (r, s') \<Rightarrow> (Inr (copy_status r result), s'))"

definition resendVerifyEmail :: "env \<Rightarrow> string option \<Rightarrow> world \<Rightarrow> (exn + bool) \<times> world" where
  "resendVerifyEmail E token s =
     succeeded
       (if given token then
          postAuthRequest E (BASE_URL E @ ''auth/resend_verification_with_token?u='' @ the token)
            None None ''POST'' s
        else postAuthRequest E (BASE_URL E @ ''auth/resend_verification'') None None ''POST'' s)"

definition updateEmail :: "env \<Rightarrow> string \<Rightarrow> world \<Rightarrow> (exn + reply) \<times> world" where
  "updateEmail E newEmail s =
     postAuthRequest E (BASE_URL E @ ''auth/update'')
       (Some [(''new_email'', toLowerCase newEmail)]) None ''POST'' s"

definition updatePassword :: "env \<Rightarrow> string \<Rightarrow> string \<Rightarrow> world \<Rightarrow> (exn + reply) \<times> world" where
  "updatePassword E currentPassword newPassword s =
     postAuthRequest E (BASE_URL E @ ''auth/change_password'')
       (Some [(''current_password'', currentPassword), (''new_password'', newPassword)])
       None ''POST'' s"

definition buildingSubscribe ::
  "env \<Rightarrow> string \<Rightarrow> string \<Rightarrow> string \<Rightarrow> string \<Rightarrow> string \<Rightarrow> world \<Rightarrow> (exn + reply) \<times> world" where
  "buildingSubscribe E bbl housenumber streetname zip_code boro s =
     (let post_data = [(''housenumber'', housenumber), (''streetname'', streetname),
                       (''zip'', zip_code), (''boro'', boro)]
      in postAuthRequest E (BASE_URL E @ ''auth/subscriptions/'' @ bbl) (Some post_data)
           None ''POST'' s)"

definition buildingUnsubscribe :: "env \<Rightarrow> string \<Rightarrow> world \<Rightarrow> (exn + reply) \<times> world" where
  "buildingUnsubscribe E bbl s =
     postAuthRequest E (BASE_URL E @ ''auth/subscriptions/'' @ bbl) None None ''DELETE'' s"

definition isEmailAlreadyUsed :: "env \<Rightarrow> string \<Rightarrow> world \<Rightarrow> (exn + bool) \<times> world" where
  "isEmailAlreadyUsed E em s =
     (let sanitizedEmail = toLowerCase em
      in case friendlyFetch E
                \<lparr>url = BASE_URL E @ ''auth/account_exists/'' @ sanitizedEmail,
                 http_method = ''GET'', mode = ''cors'', body = None,
                 headers = [(''Content-Type'', ''application/x-www-form-urlencoded'')],
                 credentials = None\<rparr> s of
           (Inl e, s') \<Rightarrow> (Inl e, s')
         | (Inr result, s') \<Rightarrow> (Inr (ok result), s'))"

definition emailUnsubscribeBuilding ::
  "env \<Rightarrow> string \<Rightarrow> string \<Rightarrow> world \<Rightarrow> (exn + reply) \<times> world" where
  "emailUnsubscribeBuilding E bbl token s =
     postAuthRequest E (BASE_URL E @ ''auth/unsubscribe/'' @ bbl @ ''?u='' @ token)
       None None ''POST'' s"

definition emailUnsubscribeAll :: "env \<Rightarrow> string \<Rightarrow> world \<Rightarrow> (exn + reply) \<times> world" where
  "emailUnsubscribeAll E token s =
     postAuthRequest E (BASE_URL E @ ''auth/email/unsubscribe?u='' @ token) None None ''POST'' s"

definition emailUserSubscriptions :: "env \<Rightarrow> string \<Rightarrow> world \<Rightarrow> (exn + reply) \<times> world" where
  "emailUserSubscriptions E token s =
     postAuthRequest E (BASE_URL E @ ''auth/email/subscriptions?u='' @ token) None None ''POST'' s"

subsection \<open>The exported object\<close>

text \<open>The property names of \<^verbatim>\<open>Client\<close>, in the order of the object literal.\<close>

definition Client_keys :: "string list" where
  "Client_keys =
     [''userAuthenticated'', ''isEmailAlreadyUsed'', ''user'', ''fetchUser'', ''setUser'',
      ''register'', ''login'', ''logout'', ''verifyEmail'', ''resendVerifyEmail'',
      ''updateEmail'', ''updatePassword'', ''resetPasswordRequest'', ''resetPasswordCheck'',
      ''resetPassword'', ''buildingSubscribe'', ''buildingUnsubscribe'',
      ''emailUserSubscriptions'', ''emailUnsubscribeBuilding'', ''emailUnsubscribeAll'']"

text \<open>A call of a member of \<^verbatim>\<open>Client\<close> with its arguments, and what it returns.\<close>

datatype call =
    UserAuthenticated
  | IsEmailAlreadyUsed string
  | User
  | FetchUser
  | SetUser JustfixUser
  | Register string string string
  | Login string string
  | Logout
  | VerifyEmail
  | ResendVerifyEmail "string option"
  | UpdateEmail string
  | UpdatePassword string string
  | ResetPasswordRequest "string option"
  | ResetPasswordCheck
  | ResetPassword string string
  | BuildingSubscribe string string string string string
  | BuildingUnsubscribe string
  | EmailUserSubscriptions string
  | EmailUnsubscribeBuilding string string
  | EmailUnsubscribeAll string

datatype returned =
  Body reply | Flag bool | UserValue "JustfixUser option" | Status VerifyEmailResponse

definition returning ::
  "('a \<Rightarrow> returned) \<Rightarrow> (exn + 'a) \<times> world
   \<Rightarrow> (exn + returned) \<times> world \<times> JustfixUser option promise option" where
  "returning f rs = (case rs of (r, s') \<Rightarrow> (map_sum (\<lambda>e. e) f r, s', None))"

text \<open>The call, awaited: what it settles to, the state then, and the promise the call
  left behind without awaiting it (\<^verbatim>\<open>register\<close> only).\<close>

fun Client ::
  "env \<Rightarrow> call \<Rightarrow> world \<Rightarrow> (exn + returned) \<times> world \<times> JustfixUser option promise option" where
  "Client E UserAuthenticated s = returning Body (userAuthenticated E s)"
| "Client E (IsEmailAlreadyUsed em) s = returning Flag (isEmailAlreadyUsed E em s)"
| "Client E User s = returning UserValue (Inr (user s), s)"
| "Client E FetchUser s = returning UserValue (fetchUser E s)"
| "Client E (SetUser u) s =
     (case setUser u s of (v, s') \<Rightarrow> returning UserValue (Inr (Some v), s'))"
| "Client E (Register username password userType) s =
     (case register E username password userType s of (r, s', p) \<Rightarrow> (map_sum (\<lambda>e. e) Body r, s', p))"
| "Client E (Login username password) s = returning Body (login E username password s)"
| "Client E Logout s = returning Body (logout E s)"
| "Client E VerifyEmail s = returning Status (verifyEmail E s)"
| "Client E (ResendVerifyEmail token) s = returning Flag (resendVerifyEmail E token s)"
| "Client E (UpdateEmail newEmail) s = returning Body (updateEmail E newEmail s)"
| "Client E (UpdatePassword currentPassword newPassword) s =
     returning Body (updatePassword E currentPassword newPassword s)"
| "Client E (ResetPasswordRequest username) s = returning Flag (resetPasswordRequest E username s)"
| "Client E ResetPasswordCheck s = returning Status (resetPasswordCheck E s)"
| "Client E (ResetPassword token newPassword) s =
     returning Status (resetPassword E token newPassword s)"
| "Client E (BuildingSubscribe bbl housenumber streetname zip_code boro) s =
     returning Body (buildingSubscribe E bbl housenumber streetname zip_code boro s)"
| "Client E (BuildingUnsubscribe bbl) s = returning Body (buildingUnsubscribe E bbl s)"
| "Client E (EmailUserSubscriptions token) s = returning Body (emailUserSubscriptions E token s)"
| "Client E (EmailUnsubscribeBuilding bbl token) s =
     returning Body (emailUnsubscribeBuilding E bbl token s)"
| "Client E (EmailUnsubscribeAll token) s = returning Body (emailUnsubscribeAll E token s)"

subsection \<open>Requests and sample environments\<close>

text \<open>The requests of the operations the results below speak of, the state of a page
  that has made no request and holds no user, and some networks: one that answers every
  request with the same body, and one that is down.\<close>

definition empty_world :: world where
  "empty_world = \<lparr>user_var = None, sent = []\<rparr>"

definition answering :: "(string + json) \<Rightarrow> env" where
  "answering b =
     \<lparr>BASE_URL = ''https://api.example/'',
      respond = (\<lambda>before q. Responds \<lparr>ok = True, resp_type = ''cors'', json_body = b\<rparr>),
      search_params = (\<lambda>k. None)\<rparr>"

definition offline :: env where
  "offline =
     \<lparr>BASE_URL = ''https://api.example/'',
      respond = (\<lambda>before q. Rejects (ErrorValue ''Failed to fetch'')),
      search_params = (\<lambda>k. None)\<rparr>"

definition set_password_request :: "env \<Rightarrow> string \<Rightarrow> string \<Rightarrow> request" where
  "set_password_request E token newPassword =
     post_request (BASE_URL E @ ''auth/set_password?token='' @ token)
       (Some [(''new_password'', newPassword)]) None ''POST''"

definition login_request :: "env \<Rightarrow> string \<Rightarrow> string \<Rightarrow> request" where
  "login_request E username password =
     post_request (BASE_URL E @ ''auth/login'')
       (Some [(''username'', toLowerCase username), (''password'', password)]) None ''POST''"

text \<open>The promise of \<^verbatim>\<open>fetch\<close> is fulfilled, not rejected.\<close>

definition completes :: "fetch_outcome \<Rightarrow> bool" where
  "completes out = (case out of Responds r \<Rightarrow> True | Rejects x \<Rightarrow> False)"

text \<open>A server whose answers do not parse as JSON.\<close>

definition garbled :: env where
  "garbled = answering (Inl ''Unexpected token < in JSON at position 0'')"

definition auth_check_request :: "env \<Rightarrow> request" where
  "auth_check_request E = post_request (BASE_URL E @ ''auth/auth_check'') None None ''POST''"

text \<open>A server that answers \<^verbatim>\<open>null\<close>: nobody is signed in.\<close>

definition signed_out :: env where
  "signed_out = answering (Inr JNull)"

text \<open>What the authentication check answers for a signed-in user, and the user
  \<^verbatim>\<open>fetchUser\<close> makes of it.\<close>

definition alice_json :: json where
  "alice_json =
     JObj [(''email'', JStr ''alice@example.com''), (''verified'', JBool True),
           (''id'', JNum 7), (''type'', JStr ''TENANT''),
           (''subscriptions'', JArr [JObj [(''bbl'', JStr ''3012380016'')]]),
           (''subscription_limit'', JNum 15)]"

definition alice :: JustfixUser where
  "alice =
     \<lparr>email = Val (JStr ''alice@example.com''), verified = Val (JBool True),
      user_id = Val (JNum 7), user_type = Val (JStr ''TENANT''),
      subscriptions = [JObj [(''bbl'', JStr ''3012380016'')]],
      subscriptionLimit = Val (JNum 15)\<rparr>"

definition signed_in :: env where
  "signed_in = answering (Inr alice_json)"

text \<open>An answer whose \<^verbatim>\<open>subscriptions\<close> is a number.\<close>

definition odd_json :: json where
  "odd_json = JObj [(''email'', JStr ''alice@example.com''), (''subscriptions'', JNum 5)]"

definition odd :: env where
  "odd = answering (Inr odd_json)"

text \<open>The value of \<^verbatim>\<open>v[k]\<close> where the access does not throw.\<close>

definition field :: "reply \<Rightarrow> string \<Rightarrow> jsval" where
  "field a k = (case get_prop a k of Inr v \<Rightarrow> v | Inl e \<Rightarrow> Undefined)"

definition register_request :: "env \<Rightarrow> string \<Rightarrow> string \<Rightarrow> string \<Rightarrow> request" where
  "register_request E username password userType =
     post_request (BASE_URL E @ ''auth/register'')
       (Some [(''username'', toLowerCase username), (''password'', password),
              (''user_type'', userType)]) None ''POST''"

subsection \<open>Results\<close>

lemma friendlyFetch_world: "snd (friendlyFetch E q s) = s\<lparr>sent := sent s @ [q]\<rparr>"
  by (simp add: friendlyFetch_def)

lemma postAuthRequest_world:
  "snd (postAuthRequest E u ps hs m s) = s\<lparr>sent := sent s @ [post_request u ps hs m]\<rparr>"
  by (simp add: postAuthRequest_def friendlyFetch_def split: fetch_outcome.splits rejection.splits sum.splits)

lemma postAuthRequest_result:
  "fst (postAuthRequest E u ps hs m s) =
     (case respond E (sent s) (post_request u ps hs m) of
        Responds r \<Rightarrow> Inr (case json_body r of Inr j \<Rightarrow> Parsed j | Inl e \<Rightarrow> RawResponse r)
      | Rejects (ErrorValue x) \<Rightarrow> Inl (NetworkError x)
      | Rejects OtherValue \<Rightarrow> Inl (Error ''Unexpected error''))"
  by (simp add: postAuthRequest_def friendlyFetch_def json_of_def split: fetch_outcome.splits rejection.splits sum.splits)

lemma postLoginCredentials_world:
  "snd (postLoginCredentials E u ps hs m s) = s\<lparr>sent := sent s @ [post_request u ps hs m]\<rparr>"
  by (simp add: postLoginCredentials_def friendlyFetch_def split: fetch_outcome.splits rejection.splits sum.splits)

lemma postLoginCredentials_result:
  "fst (postLoginCredentials E u ps hs m s) =
     (case respond E (sent s) (post_request u ps hs m) of
        Responds r \<Rightarrow> (case json_body r of Inr j \<Rightarrow> Inr (Parsed j) | Inl e \<Rightarrow> Inl (SyntaxError e))
      | Rejects (ErrorValue x) \<Rightarrow> Inl (NetworkError x)
      | Rejects OtherValue \<Rightarrow> Inl (Error ''Unexpected error''))"
  by (simp add: postLoginCredentials_def friendlyFetch_def json_of_def split: fetch_outcome.splits rejection.splits sum.splits)

lemma succeeded_result: "fst (succeeded rs) = Inr (isl (fst rs) = False)"
  by (cases rs) (simp add: succeeded_def split: sum.splits)

lemma succeeded_world: "snd (succeeded rs) = snd rs"
  by (cases rs) (simp add: succeeded_def split: sum.splits)


text \<open>C8: the two enumerations carry exactly the numbers of the API: Verify has
  Success 200, AlreadyVerified 208, Failure 400, Expired 404, Unknown 500; Reset has
  Success 200, Accepted 202, Invalid 400, Expired 410, Unknown 500; and they have no
  other member.\<close>

theorem status_code_values:
  "map VerifyStatusCode_value
     [Verify_Success, Verify_AlreadyVerified, Verify_Failure, Verify_Expired, Verify_Unknown]
     = [200, 208, 400, 404, 500]
   \<and> map ResetStatusCode_value
     [Reset_Success, Reset_Accepted, Reset_Invalid, Reset_Expired, Reset_Unknown]
     = [200, 202, 400, 410, 500]
   \<and> (UNIV :: VerifyStatusCode set)
     = {Verify_Success, Verify_AlreadyVerified, Verify_Failure, Verify_Expired, Verify_Unknown}
   \<and> (UNIV :: ResetStatusCode set)
     = {Reset_Success, Reset_Accepted, Reset_Invalid, Reset_Expired, Reset_Unknown}"
proof -
  have v: "\<And>x. x \<in> {Verify_Success, Verify_AlreadyVerified, Verify_Failure, Verify_Expired,
      Verify_Unknown}"
    by (case_tac x) simp_all
  have r: "\<And>x. x \<in> {Reset_Success, Reset_Accepted, Reset_Invalid, Reset_Expired, Reset_Unknown}"
    by (case_tac x) simp_all
  from v r show ?thesis by auto
qed

text \<open>C4: \<^verbatim>\<open>resetPassword\<close> never throws. When the server answers with a JSON
  object holding \<^verbatim>\<open>status_code\<close> c and \<^verbatim>\<open>status_text\<close> t, the result is
  statusCode c, statusText t and no error; when the request fails with an error of
  message m, the result is statusCode 500, an empty statusText and error m.\<close>

theorem resetPassword_never_throws:
  "(\<exists>result. fst (resetPassword E token newPassword s) = Inr result)
   \<and> (\<forall>r kvs c t.
         respond E (sent s) (set_password_request E token newPassword) = Responds r
         \<and> json_body r = Inr (JObj kvs)
         \<and> map_of kvs ''status_code'' = Some c \<and> map_of kvs ''status_text'' = Some t
         \<longrightarrow> fst (resetPassword E token newPassword s)
             = Inr \<lparr>statusCode = Val c, statusText = Val t, error = None\<rparr>)
   \<and> (\<forall>m. respond E (sent s) (set_password_request E token newPassword) = Rejects (ErrorValue m)
         \<longrightarrow> fst (resetPassword E token newPassword s)
             = Inr \<lparr>statusCode = Val (JNum 500), statusText = Val (JStr ''''), error = Some m\<rparr>)"
proof (intro conjI allI impI)
  show "\<exists>result. fst (resetPassword E token newPassword s) = Inr result"
    by (simp add: resetPassword_def case_prod_beta)
next
  fix r kvs c t
  assume a: "respond E (sent s) (set_password_request E token newPassword) = Responds r
         \<and> json_body r = Inr (JObj kvs)
         \<and> map_of kvs ''status_code'' = Some c \<and> map_of kvs ''status_text'' = Some t"
  have "fst (postAuthRequest E (BASE_URL E @ ''auth/set_password?token='' @ token)
         (Some [(''new_password'', newPassword)]) None ''POST'' s) = Inr (Parsed (JObj kvs))"
    using a by (simp add: postAuthRequest_result set_password_request_def)
  with a show "fst (resetPassword E token newPassword s)
             = Inr \<lparr>statusCode = Val c, statusText = Val t, error = None\<rparr>"
    by (simp add: resetPassword_def copy_status_def case_prod_beta)
next
  fix m
  assume a: "respond E (sent s) (set_password_request E token newPassword) = Rejects (ErrorValue m)"
  have "fst (postAuthRequest E (BASE_URL E @ ''auth/set_password?token='' @ token)
         (Some [(''new_password'', newPassword)]) None ''POST'' s) = Inl (NetworkError m)"
    using a by (simp add: postAuthRequest_result set_password_request_def)
  then show "fst (resetPassword E token newPassword s)
             = Inr \<lparr>statusCode = Val (JNum 500), statusText = Val (JStr ''''), error = Some m\<rparr>"
    by (simp add: resetPassword_def copy_status_def catch_error_def case_prod_beta)
qed

theorem resetPassword_never_throws_witness:
  "fst (resetPassword (answering (Inr (JObj [(''status_code'', JNum 200), (''status_text'', JStr ''ok'')])))
          ''tok123'' ''newpass'' empty_world)
     = Inr \<lparr>statusCode = Val (JNum 200), statusText = Val (JStr ''ok''), error = None\<rparr>
   \<and> fst (resetPassword offline ''tok123'' ''newpass'' empty_world)
     = Inr \<lparr>statusCode = Val (JNum 500), statusText = Val (JStr ''''), error = Some ''Failed to fetch''\<rparr>"
proof -
  let ?E = "answering (Inr (JObj [(''status_code'', JNum 200), (''status_text'', JStr ''ok'')]))"
  have h1: "respond ?E (sent empty_world) (set_password_request ?E ''tok123'' ''newpass'')
              = Responds \<lparr>ok = True, resp_type = ''cors'',
                   json_body = Inr (JObj [(''status_code'', JNum 200), (''status_text'', JStr ''ok'')])\<rparr>"
    by (simp add: answering_def)
  have h2: "respond offline (sent empty_world) (set_password_request offline ''tok123'' ''newpass'')
              = Rejects (ErrorValue ''Failed to fetch'')"
    by (simp add: offline_def)
  from resetPassword_never_throws [of ?E "''tok123''" "''newpass''" empty_world] h1
  have "fst (resetPassword ?E ''tok123'' ''newpass'' empty_world)
     = Inr \<lparr>statusCode = Val (JNum 200), statusText = Val (JStr ''ok''), error = None\<rparr>"
    by simp
  moreover from resetPassword_never_throws [of offline "''tok123''" "''newpass''" empty_world] h2
  have "fst (resetPassword offline ''tok123'' ''newpass'' empty_world)
     = Inr \<lparr>statusCode = Val (JNum 500), statusText = Val (JStr ''''), error = Some ''Failed to fetch''\<rparr>"
    by simp
  ultimately show ?thesis by simp
qed

lemma postAuthRequest_throws_iff:
  "isl (fst (postAuthRequest E u ps hs m s)) = (\<not> completes (respond E (sent s) (post_request u ps hs m)))"
  by (simp add: postAuthRequest_result completes_def split: fetch_outcome.splits rejection.splits)

text \<open>C5: \<^verbatim>\<open>resetPasswordRequest\<close> and \<^verbatim>\<open>resendVerifyEmail\<close> never
  reject: each makes one request and returns \<^verbatim>\<open>true\<close> when the request completed
  and \<^verbatim>\<open>false\<close> when it threw, transport errors included.\<close>

theorem boolean_flows_never_throw:
  "(\<exists>q. sent (snd (resetPasswordRequest E username s)) = sent s @ [q]
        \<and> fst (resetPasswordRequest E username s) = Inr (completes (respond E (sent s) q)))
   \<and> (\<exists>q. sent (snd (resendVerifyEmail E token s)) = sent s @ [q]
        \<and> fst (resendVerifyEmail E token s) = Inr (completes (respond E (sent s) q)))"
proof
  show "\<exists>q. sent (snd (resetPasswordRequest E username s)) = sent s @ [q]
        \<and> fst (resetPasswordRequest E username s) = Inr (completes (respond E (sent s) q))"
    by (cases "given username")
       (simp_all add: resetPasswordRequest_def succeeded_result succeeded_world
          postAuthRequest_world postAuthRequest_throws_iff)
  show "\<exists>q. sent (snd (resendVerifyEmail E token s)) = sent s @ [q]
        \<and> fst (resendVerifyEmail E token s) = Inr (completes (respond E (sent s) q))"
    by (cases "given token")
       (simp_all add: resendVerifyEmail_def succeeded_result succeeded_world
          postAuthRequest_world postAuthRequest_throws_iff)
qed

text \<open>C7: \<^verbatim>\<open>isEmailAlreadyUsed(email)\<close> makes one GET request, whose URL ends with
  the email in lower case (A@B.com is sent as a@b.com), and returns the flag
  \<^verbatim>\<open>ok\<close> of the response, whatever the body.\<close>

theorem isEmailAlreadyUsed_request:
  "sent (snd (isEmailAlreadyUsed E em s))
     = sent s @ [\<lparr>url = BASE_URL E @ ''auth/account_exists/'' @ toLowerCase em,
                  http_method = ''GET'', mode = ''cors'', body = None,
                  headers = [(''Content-Type'', ''application/x-www-form-urlencoded'')],
                  credentials = None\<rparr>]
   \<and> (\<forall>r. respond E (sent s)
             \<lparr>url = BASE_URL E @ ''auth/account_exists/'' @ toLowerCase em,
              http_method = ''GET'', mode = ''cors'', body = None,
              headers = [(''Content-Type'', ''application/x-www-form-urlencoded'')],
              credentials = None\<rparr> = Responds r
         \<longrightarrow> fst (isEmailAlreadyUsed E em s) = Inr (ok r))
   \<and> toLowerCase ''A@B.com'' = ''a@b.com''"
proof (intro conjI allI impI)
  show "toLowerCase ''A@B.com'' = ''a@b.com''" by code_simp
qed (simp_all add: isEmailAlreadyUsed_def friendlyFetch_def case_prod_beta Let_def
       split: fetch_outcome.splits rejection.splits)

theorem isEmailAlreadyUsed_request_witness:
  "fst (isEmailAlreadyUsed (answering (Inr JNull)) ''A@B.com'' empty_world) = Inr True
   \<and> map url (sent (snd (isEmailAlreadyUsed (answering (Inr JNull)) ''A@B.com'' empty_world)))
       = [''https://api.example/auth/account_exists/a@b.com'']"
proof -
  let ?E = "answering (Inr JNull)"
  have h: "respond ?E (sent empty_world)
             \<lparr>url = BASE_URL ?E @ ''auth/account_exists/'' @ toLowerCase ''A@B.com'',
              http_method = ''GET'', mode = ''cors'', body = None,
              headers = [(''Content-Type'', ''application/x-www-form-urlencoded'')],
              credentials = None\<rparr>
           = Responds \<lparr>ok = True, resp_type = ''cors'', json_body = Inr JNull\<rparr>"
    by (simp add: answering_def)
  from isEmailAlreadyUsed_request [of ?E "''A@B.com''" empty_world] h
  show ?thesis by (simp add: answering_def empty_world_def)
qed

text \<open>C9: \<^verbatim>\<open>login(username, password)\<close> sends the username in lower case,
  returns the parsed body of the answer of the login endpoint, and neither reads nor writes
  the cached user.\<close>

theorem login_frame:
  "sent (snd (login E username password s)) = sent s @ [login_request E username password]
   \<and> url (login_request E username password) = BASE_URL E @ ''auth/login''
   \<and> body (login_request E username password)
       = Some (''username='' @ encodeURIComponent (toLowerCase username)
               @ ''&password='' @ encodeURIComponent password)
   \<and> user_var (snd (login E username password s)) = user_var s
   \<and> (\<forall>u. login E username password (s\<lparr>user_var := u\<rparr>)
            = (fst (login E username password s), (snd (login E username password s))\<lparr>user_var := u\<rparr>))
   \<and> (\<forall>r j. respond E (sent s) (login_request E username password) = Responds r
              \<and> json_body r = Inr j
         \<longrightarrow> fst (login E username password s) = Inr (Parsed j))"
proof (intro conjI allI impI)
  show "sent (snd (login E username password s)) = sent s @ [login_request E username password]"
    by (simp add: login_def login_request_def postLoginCredentials_world)
  show "url (login_request E username password) = BASE_URL E @ ''auth/login''"
    by (simp add: login_request_def post_request_def)
  show "body (login_request E username password)
       = Some (''username='' @ encodeURIComponent (toLowerCase username)
               @ ''&password='' @ encodeURIComponent password)"
    by (simp add: login_request_def post_request_def form_body_def)
  show "user_var (snd (login E username password s)) = user_var s"
    by (simp add: login_def postLoginCredentials_world)
next
  fix u
  show "login E username password (s\<lparr>user_var := u\<rparr>)
            = (fst (login E username password s), (snd (login E username password s))\<lparr>user_var := u\<rparr>)"
    by (rule prod_eqI)
       (simp_all add: login_def postLoginCredentials_world postLoginCredentials_result)
next
  fix r j
  assume "respond E (sent s) (login_request E username password) = Responds r \<and> json_body r = Inr j"
  then show "fst (login E username password s) = Inr (Parsed j)"
    by (simp add: login_def login_request_def postLoginCredentials_result)
qed

theorem login_frame_witness:
  "fst (login (answering (Inr (JObj [(''access_token'', JStr ''t'')]))) ''A@B.com'' ''pw'' empty_world)
     = Inr (Parsed (JObj [(''access_token'', JStr ''t'')]))
   \<and> body (login_request (answering (Inr (JObj [(''access_token'', JStr ''t'')]))) ''A@B.com'' ''pw'')
     = Some ''username=a%40b.com&password=pw''"
proof -
  let ?E = "answering (Inr (JObj [(''access_token'', JStr ''t'')]))"
  have h: "respond ?E (sent empty_world) (login_request ?E ''A@B.com'' ''pw'')
             = Responds \<lparr>ok = True, resp_type = ''cors'',
                 json_body = Inr (JObj [(''access_token'', JStr ''t'')])\<rparr>"
    by (simp add: answering_def)
  have e: "''username='' @ encodeURIComponent (toLowerCase ''A@B.com'')
               @ ''&password='' @ encodeURIComponent ''pw'' = ''username=a%40b.com&password=pw''"
    by code_simp
  from login_frame [of ?E "''A@B.com''" "''pw''" empty_world] h e
  show ?thesis by simp
qed

text \<open>C6, as the specification has it, fails for \<^verbatim>\<open>login\<close>: the transport
  succeeds, the body does not parse, and the call rejects with the parse error instead of
  returning the response.\<close>

theorem login_unparsed_body_counterexample:
  "respond garbled (sent empty_world) (login_request garbled ''a@b.com'' ''pw'')
     = Responds \<lparr>ok = True, resp_type = ''cors'',
         json_body = Inl ''Unexpected token < in JSON at position 0''\<rparr>
   \<and> fst (login garbled ''a@b.com'' ''pw'' empty_world)
     = Inl (SyntaxError ''Unexpected token < in JSON at position 0'')
   \<and> fst (login garbled ''a@b.com'' ''pw'' empty_world)
     \<noteq> Inr (RawResponse \<lparr>ok = True, resp_type = ''cors'',
         json_body = Inl ''Unexpected token < in JSON at position 0''\<rparr>)"
  by (simp add: login_def postLoginCredentials_result login_request_def garbled_def answering_def)

text \<open>C6, amended: when the transport succeeds and the body does not parse, a request made
  through \<^verbatim>\<open>postAuthRequest\<close> returns the response itself, and the same request made
  through \<^verbatim>\<open>postLoginCredentials\<close> (the login) rejects with the parse error.\<close>

theorem unparsed_body:
  "respond E (sent s) (post_request u ps hs m) = Responds r \<Longrightarrow> json_body r = Inl msg
   \<Longrightarrow> fst (postAuthRequest E u ps hs m s) = Inr (RawResponse r)
       \<and> fst (postLoginCredentials E u ps hs m s) = Inl (SyntaxError msg)"
  by (simp add: postAuthRequest_result postLoginCredentials_result)

theorem unparsed_body_witness:
  "fst (postAuthRequest garbled ''https://api.example/auth/logout'' None None ''POST'' empty_world)
     = Inr (RawResponse \<lparr>ok = True, resp_type = ''cors'',
              json_body = Inl ''Unexpected token < in JSON at position 0''\<rparr>)
   \<and> fst (postLoginCredentials garbled ''https://api.example/auth/logout'' None None ''POST'' empty_world)
     = Inl (SyntaxError ''Unexpected token < in JSON at position 0'')"
proof -
  have h: "respond garbled (sent empty_world)
             (post_request ''https://api.example/auth/logout'' None None ''POST'')
           = Responds \<lparr>ok = True, resp_type = ''cors'',
              json_body = Inl ''Unexpected token < in JSON at position 0''\<rparr>"
    by (simp add: garbled_def answering_def)
  have j: "json_body \<lparr>ok = True, resp_type = ''cors'',
              json_body = Inl ''Unexpected token < in JSON at position 0''\<rparr>
           = Inl ''Unexpected token < in JSON at position 0''"
    by simp
  from unparsed_body [OF h j] show ?thesis .
qed

lemma userAuthenticated_world:
  "snd (userAuthenticated E s) = s\<lparr>sent := sent s @ [auth_check_request E]\<rparr>"
  by (simp add: userAuthenticated_def auth_check_request_def postAuthRequest_world)

lemma fetchUser_hit: "user_var s \<noteq> None \<Longrightarrow> fetchUser E s = (Inr (user_var s), s)"
  by (cases "user_var s") (simp_all add: fetchUser_def fetchUser_call_def await_def)

lemma fetchUser_miss:
  "user_var s = None \<Longrightarrow>
   fetchUser E s
     = fetchUser_resume (fst (userAuthenticated E s)) (s\<lparr>sent := sent s @ [auth_check_request E]\<rparr>)"
  by (simp add: fetchUser_def fetchUser_call_def await_def case_prod_beta userAuthenticated_world)

lemma fetchUser_resume_sent: "sent (snd (fetchUser_resume r s)) = sent s"
  by (simp add: fetchUser_resume_def clearUser_def Let_def split: sum.splits)

lemma fetchUser_sent:
  "sent (snd (fetchUser E s))
     = sent s @ (if user_var s = None then [auth_check_request E] else [])"
  by (simp add: fetchUser_hit fetchUser_miss fetchUser_resume_sent)

lemma fetchUser_keeps: "user_var s \<noteq> None \<Longrightarrow> user_var (snd (fetchUser E s)) \<noteq> None"
  by (simp add: fetchUser_hit)

text \<open>C1, as the specification has it, fails for a visitor who is not signed in: the
  first check answers \<^verbatim>\<open>null\<close>, the cache stays empty, and the second call makes
  the check again, so the two calls make two requests.\<close>

theorem fetchUser_twice_counterexample:
  "user_var empty_world = None
   \<and> sent (snd (fetchUser signed_out (snd (fetchUser signed_out empty_world))))
     = sent empty_world @ [auth_check_request signed_out, auth_check_request signed_out]"
  by (simp add: fetchUser_miss fetchUser_resume_def userAuthenticated_def postAuthRequest_result
        clearUser_def signed_out_def answering_def empty_world_def)

text \<open>C1, amended: when the cache holds a user after the first call (it held one before,
  or the first check gave one), the second call returns the cached user without a request,
  and the two calls make at most one authentication check; when the cache is still empty
  after the first call, both calls make the check; and after \<^verbatim>\<open>clearUser\<close> the next call
  makes the check again.\<close>

theorem fetchUser_twice:
  "(user_var (snd (fetchUser E s)) \<noteq> None \<longrightarrow>
      fetchUser E (snd (fetchUser E s)) = (Inr (user_var (snd (fetchUser E s))), snd (fetchUser E s))
      \<and> (sent (snd (fetchUser E (snd (fetchUser E s)))) = sent s
         \<or> sent (snd (fetchUser E (snd (fetchUser E s)))) = sent s @ [auth_check_request E]))
   \<and> (user_var (snd (fetchUser E s)) = None \<longrightarrow>
      sent (snd (fetchUser E (snd (fetchUser E s))))
        = sent s @ [auth_check_request E, auth_check_request E])
   \<and> sent (snd (fetchUser E (clearUser s))) = sent s @ [auth_check_request E]"
proof (intro conjI impI)
  assume p: "user_var (snd (fetchUser E s)) \<noteq> None"
  then show "fetchUser E (snd (fetchUser E s))
      = (Inr (user_var (snd (fetchUser E s))), snd (fetchUser E s))"
    by (rule fetchUser_hit)
  then show "sent (snd (fetchUser E (snd (fetchUser E s)))) = sent s
         \<or> sent (snd (fetchUser E (snd (fetchUser E s)))) = sent s @ [auth_check_request E]"
    by (simp add: fetchUser_sent)
next
  assume e: "user_var (snd (fetchUser E s)) = None"
  then have "user_var s = None"
    using fetchUser_keeps [of s E] by blast
  with e show "sent (snd (fetchUser E (snd (fetchUser E s))))
        = sent s @ [auth_check_request E, auth_check_request E]"
    by (simp add: fetchUser_sent)
next
  show "sent (snd (fetchUser E (clearUser s))) = sent s @ [auth_check_request E]"
    by (simp add: fetchUser_sent clearUser_def)
qed

lemma new_user_alice: "new_user (Parsed alice_json) = Inr alice"
  by (simp add: new_user_def copy_subscriptions_def and_then_def alice_json_def alice_def)

lemma truthy_alice: "truthy (Parsed alice_json)"
  by (simp add: alice_json_def)

lemma fetchUser_signed_in:
  "fetchUser signed_in empty_world
     = (Inr (Some alice), \<lparr>user_var = Some alice, sent = [auth_check_request signed_in]\<rparr>)"
proof -
  have "fst (userAuthenticated signed_in empty_world) = Inr (Parsed alice_json)"
    by (simp add: userAuthenticated_def postAuthRequest_result signed_in_def answering_def)
  then show ?thesis
    by (simp add: fetchUser_miss fetchUser_resume_def new_user_alice truthy_alice empty_world_def)
qed

lemma fetchUser_signed_out:
  "fetchUser signed_out empty_world
     = (Inr None, \<lparr>user_var = None, sent = [auth_check_request signed_out]\<rparr>)"
  by (simp add: fetchUser_miss fetchUser_resume_def userAuthenticated_def postAuthRequest_result
        clearUser_def signed_out_def answering_def empty_world_def)

theorem fetchUser_twice_witness:
  "user_var (snd (fetchUser signed_in empty_world)) \<noteq> None
   \<and> fetchUser signed_in (snd (fetchUser signed_in empty_world))
       = (Inr (Some alice), \<lparr>user_var = Some alice, sent = [auth_check_request signed_in]\<rparr>)
   \<and> user_var (snd (fetchUser signed_out empty_world)) = None
   \<and> sent (snd (fetchUser signed_out (snd (fetchUser signed_out empty_world))))
       = [auth_check_request signed_out, auth_check_request signed_out]"
proof -
  have h1: "user_var (snd (fetchUser signed_in empty_world)) \<noteq> None"
    by (simp add: fetchUser_signed_in)
  have h2: "user_var (snd (fetchUser signed_out empty_world)) = None"
    by (simp add: fetchUser_signed_out)
  from fetchUser_twice [of signed_in empty_world] h1
  have "fetchUser signed_in (snd (fetchUser signed_in empty_world))
       = (Inr (Some alice), \<lparr>user_var = Some alice, sent = [auth_check_request signed_in]\<rparr>)"
    by (simp add: fetchUser_signed_in)
  moreover from fetchUser_twice [of signed_out empty_world] h2
  have "sent (snd (fetchUser signed_out (snd (fetchUser signed_out empty_world))))
       = [auth_check_request signed_out, auth_check_request signed_out]"
    by (simp add: empty_world_def)
  ultimately show ?thesis using h1 h2 by simp
qed

lemma truthy_get_prop: "truthy a \<Longrightarrow> get_prop a k = Inr (field a k)"
proof (cases a)
  case (Parsed j)
  assume "truthy a"
  with Parsed show ?thesis by (cases j) (simp_all add: field_def)
next
  case (RawResponse r)
  then show ?thesis by (simp add: field_def)
qed

lemma new_user_absent:
  assumes "truthy a" and "field a ''subscriptions'' = Undefined \<or> field a ''subscriptions'' = Val JNull"
  shows "new_user a =
    Inr \<lparr>email = field a ''email'', verified = field a ''verified'', user_id = field a ''id'',
         user_type = field a ''type'', subscriptions = [],
         subscriptionLimit = field a ''subscription_limit''\<rparr>"
  using assms by (auto simp add: new_user_def copy_subscriptions_def and_then_def truthy_get_prop)

lemma new_user_array:
  assumes "truthy a" and "field a ''subscriptions'' = Val (JArr xs)"
  shows "new_user a =
    Inr \<lparr>email = field a ''email'', verified = field a ''verified'', user_id = field a ''id'',
         user_type = field a ''type'', subscriptions = map spread xs,
         subscriptionLimit = field a ''subscription_limit''\<rparr>"
  using assms by (simp add: new_user_def copy_subscriptions_def and_then_def truthy_get_prop)

lemma new_user_other:
  assumes "truthy a" and "field a ''subscriptions'' = Val v" and "v \<noteq> JNull" and "\<forall>xs. v \<noteq> JArr xs"
  shows "new_user a = Inl (TypeError ''authCheck.subscriptions?.map is not a function'')"
  using assms
  by (cases v) (simp_all add: new_user_def copy_subscriptions_def and_then_def truthy_get_prop)

text \<open>C2, as the specification has it, fails on a truthy answer of the check whose
  \<^verbatim>\<open>subscriptions\<close> is neither absent, \<^verbatim>\<open>null\<close> nor an array: the call of
  \<^verbatim>\<open>map\<close> throws, \<^verbatim>\<open>fetchUser\<close> rejects and the cache is not populated.\<close>

theorem fetchUser_empty_cache_counterexample:
  "user_var empty_world = None
   \<and> fst (userAuthenticated odd empty_world) = Inr (Parsed odd_json)
   \<and> truthy (Parsed odd_json)
   \<and> fst (fetchUser odd empty_world)
       = Inl (TypeError ''authCheck.subscriptions?.map is not a function'')
   \<and> user_var (snd (fetchUser odd empty_world)) = None"
proof -
  have c: "fst (userAuthenticated odd empty_world) = Inr (Parsed odd_json)"
    by (simp add: userAuthenticated_def postAuthRequest_result odd_def answering_def)
  have t: "truthy (Parsed odd_json)"
    by (simp add: odd_json_def)
  have n: "new_user (Parsed odd_json)
             = Inl (TypeError ''authCheck.subscriptions?.map is not a function'')"
    by (simp add: new_user_def copy_subscriptions_def and_then_def odd_json_def)
  have e: "user_var empty_world = None"
    by (simp add: empty_world_def)
  from c t n e show ?thesis
    by (simp add: fetchUser_miss fetchUser_resume_def)
qed

text \<open>C2, amended: \<^verbatim>\<open>fetchUser\<close> is called with an empty cache. When the check
  fails (the request is rejected) or answers a falsy value, the cache is empty when the call
  completes. When the check answers a truthy value whose \<^verbatim>\<open>subscriptions\<close> is absent,
  \<^verbatim>\<open>null\<close> or an array, the cache holds the user made of the fields of the answer,
  with the subscriptions copied. For any other \<^verbatim>\<open>subscriptions\<close> the call rejects
  with a \<^verbatim>\<open>TypeError\<close> and the cache stays empty.\<close>

theorem fetchUser_empty_cache:
  assumes "user_var s = None"
  shows
  "(\<forall>e. fst (userAuthenticated E s) = Inl e
        \<longrightarrow> fst (fetchUser E s) = Inl e \<and> user_var (snd (fetchUser E s)) = None)
   \<and> (\<not> completes (respond E (sent s) (auth_check_request E))
        \<longrightarrow> isl (fst (fetchUser E s)) \<and> user_var (snd (fetchUser E s)) = None)
   \<and> (\<forall>a. fst (userAuthenticated E s) = Inr a \<and> \<not> truthy a
        \<longrightarrow> fst (fetchUser E s) = Inr None \<and> user_var (snd (fetchUser E s)) = None)
   \<and> (\<forall>a. fst (userAuthenticated E s) = Inr a \<and> truthy a
            \<and> (field a ''subscriptions'' = Undefined \<or> field a ''subscriptions'' = Val JNull)
        \<longrightarrow> user_var (snd (fetchUser E s))
              = Some \<lparr>email = field a ''email'', verified = field a ''verified'',
                      user_id = field a ''id'', user_type = field a ''type'',
                      subscriptions = [],
                      subscriptionLimit = field a ''subscription_limit''\<rparr>
            \<and> fst (fetchUser E s) = Inr (user_var (snd (fetchUser E s))))
   \<and> (\<forall>a xs. fst (userAuthenticated E s) = Inr a \<and> truthy a
            \<and> field a ''subscriptions'' = Val (JArr xs)
        \<longrightarrow> user_var (snd (fetchUser E s))
              = Some \<lparr>email = field a ''email'', verified = field a ''verified'',
                      user_id = field a ''id'', user_type = field a ''type'',
                      subscriptions = map spread xs,
                      subscriptionLimit = field a ''subscription_limit''\<rparr>
            \<and> fst (fetchUser E s) = Inr (user_var (snd (fetchUser E s))))
   \<and> (\<forall>a v. fst (userAuthenticated E s) = Inr a \<and> truthy a
            \<and> field a ''subscriptions'' = Val v \<and> v \<noteq> JNull \<and> (\<forall>xs. v \<noteq> JArr xs)
        \<longrightarrow> fst (fetchUser E s)
              = Inl (TypeError ''authCheck.subscriptions?.map is not a function'')
            \<and> user_var (snd (fetchUser E s)) = None)"
proof -
  note miss = fetchUser_miss [OF assms, of E]
  have 1: "\<forall>e. fst (userAuthenticated E s) = Inl e
        \<longrightarrow> fst (fetchUser E s) = Inl e \<and> user_var (snd (fetchUser E s)) = None"
    using assms by (simp add: miss fetchUser_resume_def)
  have 2: "\<not> completes (respond E (sent s) (auth_check_request E))
        \<longrightarrow> isl (fst (fetchUser E s)) \<and> user_var (snd (fetchUser E s)) = None"
  proof
    assume "\<not> completes (respond E (sent s) (auth_check_request E))"
    then have "isl (fst (userAuthenticated E s))"
      by (simp add: userAuthenticated_def auth_check_request_def postAuthRequest_throws_iff)
    then obtain e where "fst (userAuthenticated E s) = Inl e"
      by (cases "fst (userAuthenticated E s)") simp_all
    with 1 show "isl (fst (fetchUser E s)) \<and> user_var (snd (fetchUser E s)) = None"
      by simp
  qed
  have 3: "\<forall>a. fst (userAuthenticated E s) = Inr a \<and> \<not> truthy a
        \<longrightarrow> fst (fetchUser E s) = Inr None \<and> user_var (snd (fetchUser E s)) = None"
    by (simp add: miss fetchUser_resume_def clearUser_def)
  have 4: "\<forall>a. fst (userAuthenticated E s) = Inr a \<and> truthy a
            \<and> (field a ''subscriptions'' = Undefined \<or> field a ''subscriptions'' = Val JNull)
        \<longrightarrow> user_var (snd (fetchUser E s))
              = Some \<lparr>email = field a ''email'', verified = field a ''verified'',
                      user_id = field a ''id'', user_type = field a ''type'',
                      subscriptions = [],
                      subscriptionLimit = field a ''subscription_limit''\<rparr>
            \<and> fst (fetchUser E s) = Inr (user_var (snd (fetchUser E s)))"
    by (intro allI impI) (simp add: miss fetchUser_resume_def new_user_absent)
  have 5: "\<forall>a xs. fst (userAuthenticated E s) = Inr a \<and> truthy a
            \<and> field a ''subscriptions'' = Val (JArr xs)
        \<longrightarrow> user_var (snd (fetchUser E s))
              = Some \<lparr>email = field a ''email'', verified = field a ''verified'',
                      user_id = field a ''id'', user_type = field a ''type'',
                      subscriptions = map spread xs,
                      subscriptionLimit = field a ''subscription_limit''\<rparr>
            \<and> fst (fetchUser E s) = Inr (user_var (snd (fetchUser E s)))"
    by (intro allI impI) (simp add: miss fetchUser_resume_def new_user_array)
  have 6: "\<forall>a v. fst (userAuthenticated E s) = Inr a \<and> truthy a
            \<and> field a ''subscriptions'' = Val v \<and> v \<noteq> JNull \<and> (\<forall>xs. v \<noteq> JArr xs)
        \<longrightarrow> fst (fetchUser E s)
              = Inl (TypeError ''authCheck.subscriptions?.map is not a function'')
            \<and> user_var (snd (fetchUser E s)) = None"
    using assms by (intro allI impI) (simp add: miss fetchUser_resume_def new_user_other)
  from 1 2 3 4 5 6 show ?thesis by blast
qed

lemma empty_world_cache: "user_var empty_world = None"
  by (simp add: empty_world_def)

lemma check_answering:
  "fst (userAuthenticated (answering (Inr j)) empty_world) = Inr (Parsed j)"
  by (simp add: userAuthenticated_def postAuthRequest_result answering_def)

theorem fetchUser_empty_cache_witness:
  "user_var empty_world = None
   \<and> isl (fst (fetchUser offline empty_world)) \<and> user_var (snd (fetchUser offline empty_world)) = None
   \<and> fst (fetchUser signed_out empty_world) = Inr None
   \<and> user_var (snd (fetchUser signed_out empty_world)) = None
   \<and> user_var (snd (fetchUser signed_in empty_world)) = Some alice
   \<and> user_var (snd (fetchUser (answering (Inr (JObj []))) empty_world))
       = Some \<lparr>email = Undefined, verified = Undefined, user_id = Undefined,
               user_type = Undefined, subscriptions = [], subscriptionLimit = Undefined\<rparr>
   \<and> user_var (snd (fetchUser odd empty_world)) = None"
proof -
  note e = empty_world_cache
  have off: "\<not> completes (respond offline (sent empty_world) (auth_check_request offline))"
    by (simp add: completes_def offline_def)
  from fetchUser_empty_cache [OF e, of offline] off
  have 1: "isl (fst (fetchUser offline empty_world))
           \<and> user_var (snd (fetchUser offline empty_world)) = None"
    by blast
  have out: "fst (userAuthenticated signed_out empty_world) = Inr (Parsed JNull)"
    by (simp add: signed_out_def check_answering)
  have "\<not> truthy (Parsed JNull)" by simp
  with fetchUser_empty_cache [OF e, of signed_out] out
  have 2: "fst (fetchUser signed_out empty_world) = Inr None
           \<and> user_var (snd (fetchUser signed_out empty_world)) = None"
    by blast
  have inn: "fst (userAuthenticated signed_in empty_world) = Inr (Parsed alice_json)"
    by (simp add: signed_in_def check_answering)
  have f: "field (Parsed alice_json) ''subscriptions'' = Val (JArr [JObj [(''bbl'', JStr ''3012380016'')]])"
    by (simp add: field_def alice_json_def)
  have a: "\<lparr>email = field (Parsed alice_json) ''email'', verified = field (Parsed alice_json) ''verified'',
            user_id = field (Parsed alice_json) ''id'', user_type = field (Parsed alice_json) ''type'',
            subscriptions = map spread [JObj [(''bbl'', JStr ''3012380016'')]],
            subscriptionLimit = field (Parsed alice_json) ''subscription_limit''\<rparr> = alice"
    by (simp add: field_def alice_json_def alice_def)
  have "truthy (Parsed alice_json)" by (simp add: alice_json_def)
  with fetchUser_empty_cache [OF e, of signed_in] inn f
  have "user_var (snd (fetchUser signed_in empty_world))
          = Some \<lparr>email = field (Parsed alice_json) ''email'', verified = field (Parsed alice_json) ''verified'',
            user_id = field (Parsed alice_json) ''id'', user_type = field (Parsed alice_json) ''type'',
            subscriptions = map spread [JObj [(''bbl'', JStr ''3012380016'')]],
            subscriptionLimit = field (Parsed alice_json) ''subscription_limit''\<rparr>"
    by blast
  with a have 3: "user_var (snd (fetchUser signed_in empty_world)) = Some alice"
    by simp
  have bare: "fst (userAuthenticated (answering (Inr (JObj []))) empty_world) = Inr (Parsed (JObj []))"
    by (rule check_answering)
  have fb: "\<And>k. field (Parsed (JObj [])) k = Undefined"
    by (simp add: field_def)
  have "truthy (Parsed (JObj []))" by simp
  with fetchUser_empty_cache [OF e, of "answering (Inr (JObj []))"] bare fb
  have 4: "user_var (snd (fetchUser (answering (Inr (JObj []))) empty_world))
       = Some \<lparr>email = Undefined, verified = Undefined, user_id = Undefined,
               user_type = Undefined, subscriptions = [], subscriptionLimit = Undefined\<rparr>"
    by simp
  have o: "fst (userAuthenticated odd empty_world) = Inr (Parsed odd_json)"
    by (simp add: odd_def check_answering)
  have fo: "field (Parsed odd_json) ''subscriptions'' = Val (JNum 5)"
    by (simp add: field_def odd_json_def)
  have "truthy (Parsed odd_json)" by (simp add: odd_json_def)
  with fetchUser_empty_cache [OF e, of odd] o fo
  have 5: "user_var (snd (fetchUser odd empty_world)) = None"
    by simp
  from e 1 2 3 4 5 show ?thesis by simp
qed

text \<open>C3, as the specification has it, fails: the call of \<^verbatim>\<open>fetchUser\<close> in
  \<^verbatim>\<open>register\<close> is not awaited. For a visitor with an empty cache the registration
  succeeds, the check that follows reports the new user, and the cache is still empty when
  the promise of \<^verbatim>\<open>register\<close> resolves.\<close>

theorem register_not_awaited_counterexample:
  "fst (register signed_in ''A@B.com'' ''pw'' ''TENANT'' empty_world) = Inr (Parsed alice_json)
   \<and> fst (userAuthenticated signed_in
            (empty_world\<lparr>sent := [register_request signed_in ''A@B.com'' ''pw'' ''TENANT'']\<rparr>))
       = Inr (Parsed alice_json)
   \<and> new_user (Parsed alice_json) = Inr alice
   \<and> user_var (fst (snd (register signed_in ''A@B.com'' ''pw'' ''TENANT'' empty_world))) = None"
proof -
  have p: "postAuthRequest signed_in (BASE_URL signed_in @ ''auth/register'')
             (Some [(''username'', toLowerCase ''A@B.com''), (''password'', ''pw''),
                    (''user_type'', ''TENANT'')]) None ''POST'' empty_world
           = (Inr (Parsed alice_json),
              empty_world\<lparr>sent := [register_request signed_in ''A@B.com'' ''pw'' ''TENANT'']\<rparr>)"
    by (rule prod_eqI)
       (simp_all add: postAuthRequest_result postAuthRequest_world register_request_def
          signed_in_def answering_def empty_world_def)
  have c: "fst (userAuthenticated signed_in
            (empty_world\<lparr>sent := [register_request signed_in ''A@B.com'' ''pw'' ''TENANT'']\<rparr>))
       = Inr (Parsed alice_json)"
    by (simp add: userAuthenticated_def postAuthRequest_result signed_in_def answering_def)
  from p c show ?thesis
    by (simp add: register_def fetchUser_call_def case_prod_beta userAuthenticated_world
          new_user_alice empty_world_def)
qed

lemma register_unfold:
  "register E username password userType s =
     (case fst (postAuthRequest E (BASE_URL E @ ''auth/register'')
             (Some [(''username'', toLowerCase username), (''password'', password),
                    (''user_type'', userType)]) None ''POST'' s) of
        Inl e \<Rightarrow> (Inl e, s\<lparr>sent := sent s @ [register_request E username password userType]\<rparr>, None)
      | Inr json \<Rightarrow>
          (Inr json,
           snd (fetchUser_call E (s\<lparr>sent := sent s @ [register_request E username password userType]\<rparr>)),
           Some (fst (fetchUser_call E
                  (s\<lparr>sent := sent s @ [register_request E username password userType]\<rparr>)))))"
proof -
  obtain r s' where p: "postAuthRequest E (BASE_URL E @ ''auth/register'')
             (Some [(''username'', toLowerCase username), (''password'', password),
                    (''user_type'', userType)]) None ''POST'' s = (r, s')"
    by (cases "postAuthRequest E (BASE_URL E @ ''auth/register'')
             (Some [(''username'', toLowerCase username), (''password'', password),
                    (''user_type'', userType)]) None ''POST'' s")
  have "s' = s\<lparr>sent := sent s @ [register_request E username password userType]\<rparr>"
    using postAuthRequest_world [of E "BASE_URL E @ ''auth/register''"
        "Some [(''username'', toLowerCase username), (''password'', password),
               (''user_type'', userType)]" None "''POST''" s] p
    by (simp add: register_request_def)
  with p show ?thesis
    by (cases r) (simp_all add: register_def case_prod_beta)
qed

lemma fetchUser_call_hit:
  "user_var s \<noteq> None \<Longrightarrow> fetchUser_call E s = (Fulfilled (user_var s), s)"
  by (cases "user_var s") (simp_all add: fetchUser_call_def)

lemma fetchUser_call_miss:
  "user_var s = None \<Longrightarrow>
   fetchUser_call E s
     = (Pending (fetchUser_resume (fst (userAuthenticated E s))),
        s\<lparr>sent := sent s @ [auth_check_request E]\<rparr>)"
  by (simp add: fetchUser_call_def case_prod_beta userAuthenticated_world)

lemma fetchUser_call_cache: "user_var (snd (fetchUser_call E s)) = user_var s"
  by (cases "user_var s") (simp_all add: fetchUser_call_def case_prod_beta userAuthenticated_world)

lemma fetchUser_resume_truthy:
  "truthy a \<Longrightarrow> new_user a = Inr usr \<Longrightarrow> user_var (snd (fetchUser_resume (Inr a) w)) = Some usr"
  by (simp add: fetchUser_resume_def)

text \<open>C3, amended: when \<^verbatim>\<open>register\<close> succeeds, the cache at the moment its promise
  resolves is the cache as it was before the call. If it held a user, no authentication
  check is made. If it was empty, the check has been handed to \<^verbatim>\<open>fetch\<close> and is still
  pending: the cache reflects the user the check reports only later, when the pending call
  of \<^verbatim>\<open>fetchUser\<close> resumes with a truthy answer.\<close>

theorem register_cache_eventual:
  assumes "fst (register E username password userType s) = Inr json"
  shows
  "user_var (fst (snd (register E username password userType s))) = user_var s
   \<and> (user_var s \<noteq> None \<longrightarrow>
        sent (fst (snd (register E username password userType s)))
          = sent s @ [register_request E username password userType]
        \<and> snd (snd (register E username password userType s)) = Some (Fulfilled (user_var s)))
   \<and> (user_var s = None \<longrightarrow>
        sent (fst (snd (register E username password userType s)))
          = sent s @ [register_request E username password userType, auth_check_request E]
        \<and> snd (snd (register E username password userType s))
          = Some (Pending (fetchUser_resume (fst (userAuthenticated E
               (s\<lparr>sent := sent s @ [register_request E username password userType]\<rparr>))))))
   \<and> (\<forall>k a usr w.
        snd (snd (register E username password userType s)) = Some (Pending k)
        \<and> fst (userAuthenticated E
               (s\<lparr>sent := sent s @ [register_request E username password userType]\<rparr>)) = Inr a
        \<and> truthy a \<and> new_user a = Inr usr
        \<longrightarrow> user_var (snd (k w)) = Some usr)"
proof -
  let ?s1 = "s\<lparr>sent := sent s @ [register_request E username password userType]\<rparr>"
  from assms have r: "register E username password userType s
      = (Inr json, snd (fetchUser_call E ?s1), Some (fst (fetchUser_call E ?s1)))"
    by (simp add: register_unfold split: sum.splits)
  have 1: "user_var (fst (snd (register E username password userType s))) = user_var s"
    by (simp add: r fetchUser_call_cache)
  have 2: "user_var s \<noteq> None \<longrightarrow>
        sent (fst (snd (register E username password userType s)))
          = sent s @ [register_request E username password userType]
        \<and> snd (snd (register E username password userType s)) = Some (Fulfilled (user_var s))"
  proof
    assume "user_var s \<noteq> None"
    then have "fetchUser_call E ?s1 = (Fulfilled (user_var s), ?s1)"
      using fetchUser_call_hit [of ?s1 E] by simp
    then show "sent (fst (snd (register E username password userType s)))
          = sent s @ [register_request E username password userType]
        \<and> snd (snd (register E username password userType s)) = Some (Fulfilled (user_var s))"
      by (simp add: r)
  qed
  have 3: "user_var s = None \<longrightarrow>
        sent (fst (snd (register E username password userType s)))
          = sent s @ [register_request E username password userType, auth_check_request E]
        \<and> snd (snd (register E username password userType s))
          = Some (Pending (fetchUser_resume (fst (userAuthenticated E ?s1))))"
  proof
    assume "user_var s = None"
    then have "fetchUser_call E ?s1
        = (Pending (fetchUser_resume (fst (userAuthenticated E ?s1))),
           ?s1\<lparr>sent := sent ?s1 @ [auth_check_request E]\<rparr>)"
      using fetchUser_call_miss [of ?s1 E] by simp
    then show "sent (fst (snd (register E username password userType s)))
          = sent s @ [register_request E username password userType, auth_check_request E]
        \<and> snd (snd (register E username password userType s))
          = Some (Pending (fetchUser_resume (fst (userAuthenticated E ?s1))))"
      by (simp add: r)
  qed
  have 4: "\<forall>k a usr w.
        snd (snd (register E username password userType s)) = Some (Pending k)
        \<and> fst (userAuthenticated E ?s1) = Inr a \<and> truthy a \<and> new_user a = Inr usr
        \<longrightarrow> user_var (snd (k w)) = Some usr"
  proof (intro allI impI)
    fix k a usr w
    assume h: "snd (snd (register E username password userType s)) = Some (Pending k)
        \<and> fst (userAuthenticated E ?s1) = Inr a \<and> truthy a \<and> new_user a = Inr usr"
    have "user_var s = None"
    proof (rule ccontr)
      assume "user_var s \<noteq> None"
      with 2 h show False by simp
    qed
    with 3 h have "k = fetchUser_resume (Inr a)" by simp
    with h show "user_var (snd (k w)) = Some usr"
      by (simp add: fetchUser_resume_truthy)
  qed
  from 1 2 3 4 show ?thesis by blast
qed

theorem register_cache_eventual_witness:
  "fst (register signed_in ''A@B.com'' ''pw'' ''TENANT'' empty_world) = Inr (Parsed alice_json)
   \<and> user_var (fst (snd (register signed_in ''A@B.com'' ''pw'' ''TENANT'' empty_world))) = None
   \<and> sent (fst (snd (register signed_in ''A@B.com'' ''pw'' ''TENANT'' empty_world)))
       = [register_request signed_in ''A@B.com'' ''pw'' ''TENANT'', auth_check_request signed_in]
   \<and> (\<exists>k. snd (snd (register signed_in ''A@B.com'' ''pw'' ''TENANT'' empty_world)) = Some (Pending k)
          \<and> user_var (snd (k (fst (snd (register signed_in ''A@B.com'' ''pw'' ''TENANT'' empty_world)))))
              = Some alice)"
proof -
  have h: "fst (register signed_in ''A@B.com'' ''pw'' ''TENANT'' empty_world) = Inr (Parsed alice_json)"
    by (simp add: register_unfold postAuthRequest_result signed_in_def answering_def)
  have c: "fst (userAuthenticated signed_in
            (empty_world\<lparr>sent := sent empty_world @ [register_request signed_in ''A@B.com'' ''pw'' ''TENANT'']\<rparr>))
       = Inr (Parsed alice_json)"
    by (simp add: userAuthenticated_def postAuthRequest_result signed_in_def answering_def)
  note t = register_cache_eventual [OF h]
  from t have 1: "user_var (fst (snd (register signed_in ''A@B.com'' ''pw'' ''TENANT'' empty_world))) = None"
    by (simp add: empty_world_cache)
  from t have 2: "sent (fst (snd (register signed_in ''A@B.com'' ''pw'' ''TENANT'' empty_world)))
       = [register_request signed_in ''A@B.com'' ''pw'' ''TENANT'', auth_check_request signed_in]"
    by (simp add: empty_world_def)
  from t c have 3: "snd (snd (register signed_in ''A@B.com'' ''pw'' ''TENANT'' empty_world))
      = Some (Pending (fetchUser_resume (Inr (Parsed alice_json))))"
    by (simp add: empty_world_cache)
  from t 3 c truthy_alice new_user_alice
  have 4: "user_var (snd (fetchUser_resume (Inr (Parsed alice_json))
              (fst (snd (register signed_in ''A@B.com'' ''pw'' ''TENANT'' empty_world))))) = Some alice"
    by blast
  from h 1 2 3 4 show ?thesis by simp
qed

lemma returning_world: "fst (snd (returning f rs)) = snd rs"
  by (simp add: returning_def case_prod_beta)

lemma returning_promise: "snd (snd (returning f rs)) = None"
  by (simp add: returning_def case_prod_beta)

lemma fetchUser_resume_cache:
  "user_var (snd (fetchUser_resume r w)) = None \<Longrightarrow> user_var w \<noteq> None
   \<Longrightarrow> \<exists>a. r = Inr a \<and> \<not> truthy a"
  by (cases r) (auto simp add: fetchUser_resume_def Let_def split: if_splits sum.splits)

lemma fetchUser_resume_falsy:
  "\<not> truthy a \<Longrightarrow> user_var (snd (fetchUser_resume (Inr a) w)) = None"
  by (simp add: fetchUser_resume_def clearUser_def)

lemma register_world_cache:
  "user_var (fst (snd (register E username password userType s))) = user_var s"
  by (simp add: register_unfold fetchUser_call_cache split: sum.splits)

lemma register_promise:
  "snd (snd (register E username password userType s)) = Some (Pending k)
   \<Longrightarrow> \<exists>r. k = fetchUser_resume r"
  by (auto simp add: register_unfold fetchUser_call_def case_prod_beta split: sum.splits if_splits)

lemma Client_cache:
  "user_var (fst (snd (Client E c s))) = (case c of SetUser u \<Rightarrow> Some u | FetchUser \<Rightarrow> user_var (snd (fetchUser E s)) | _ \<Rightarrow> user_var s)"
proof (cases c)
  case (Register username password userType)
  then show ?thesis by (simp add: case_prod_beta register_world_cache)
next
  case (SetUser u)
  then show ?thesis by (simp add: setUser_def returning_world)
next
  case (IsEmailAlreadyUsed em)
  then show ?thesis
    by (simp add: returning_world isEmailAlreadyUsed_def Let_def friendlyFetch_def
          split: fetch_outcome.splits rejection.splits)
qed (simp_all add: returning_world userAuthenticated_world user_def login_def logout_def
       verifyEmail_def resendVerifyEmail_def updateEmail_def updatePassword_def
       resetPasswordRequest_def resetPasswordCheck_def resetPassword_def buildingSubscribe_def
       buildingUnsubscribe_def emailUserSubscriptions_def emailUnsubscribeBuilding_def
       emailUnsubscribeAll_def postAuthRequest_world postLoginCredentials_world succeeded_world
       case_prod_beta Let_def)

lemma Client_promise:
  "snd (snd (Client E c s)) = Some (Pending k) \<Longrightarrow> \<exists>r. k = fetchUser_resume r"
  by (cases c) (simp_all add: returning_promise case_prod_beta register_promise)

text \<open>C10: \<^verbatim>\<open>Client\<close> has no member \<^verbatim>\<open>clearUser\<close>;
  \<^verbatim>\<open>setUser\<close> leaves the user it was given in the cache and \<^verbatim>\<open>logout\<close> leaves
  the cache as it was; no call of a member, awaited, takes a cache that holds a user to an
  empty one. The only code a call leaves pending is the rest of \<^verbatim>\<open>fetchUser\<close> after
  its check, and that empties a cache that holds a user exactly when the check answered a
  falsy value.\<close>

theorem cache_emptied_only_by_fetchUser:
  "''clearUser'' \<notin> set Client_keys
   \<and> user_var (fst (snd (Client E (SetUser u) s))) = Some u
   \<and> user_var (fst (snd (Client E Logout s))) = user_var s
   \<and> (user_var s \<noteq> None \<longrightarrow> user_var (fst (snd (Client E c s))) \<noteq> None)
   \<and> (\<forall>k. snd (snd (Client E c s)) = Some (Pending k) \<or> fst (fetchUser_call E s) = Pending k
          \<longrightarrow> (\<exists>r. k = fetchUser_resume r))
   \<and> (user_var w \<noteq> None \<and> user_var (snd (fetchUser_resume r w)) = None
          \<longrightarrow> (\<exists>a. r = Inr a \<and> \<not> truthy a))
   \<and> (\<not> truthy a \<longrightarrow> user_var (snd (fetchUser_resume (Inr a) w)) = None)"
proof (intro conjI impI allI)
  show "''clearUser'' \<notin> set Client_keys"
    by (simp add: Client_keys_def)
  show "user_var (fst (snd (Client E (SetUser u) s))) = Some u"
    using Client_cache [of E "SetUser u" s] by simp
  show "user_var (fst (snd (Client E Logout s))) = user_var s"
    using Client_cache [of E Logout s] by simp
next
  assume "user_var s \<noteq> None"
  then show "user_var (fst (snd (Client E c s))) \<noteq> None"
    using Client_cache [of E c s] by (cases c) (simp_all add: fetchUser_hit)
next
  fix k
  assume "snd (snd (Client E c s)) = Some (Pending k) \<or> fst (fetchUser_call E s) = Pending k"
  then show "\<exists>r. k = fetchUser_resume r"
  proof
    assume "snd (snd (Client E c s)) = Some (Pending k)"
    then show ?thesis by (rule Client_promise)
  next
    assume "fst (fetchUser_call E s) = Pending k"
    then show ?thesis
      by (auto simp add: fetchUser_call_def case_prod_beta split: if_splits)
  qed
next
  assume "user_var w \<noteq> None \<and> user_var (snd (fetchUser_resume r w)) = None"
  then show "\<exists>a. r = Inr a \<and> \<not> truthy a"
    using fetchUser_resume_cache [of r w] by blast
next
  assume "\<not> truthy a"
  then show "user_var (snd (fetchUser_resume (Inr a) w)) = None"
    by (rule fetchUser_resume_falsy)
qed

theorem cache_emptied_only_by_fetchUser_witness:
  "user_var (snd (setUser alice empty_world)) \<noteq> None
   \<and> user_var (fst (snd (Client signed_out Logout (snd (setUser alice empty_world))))) \<noteq> None
   \<and> (\<exists>r. snd (snd (Client signed_in (Register ''A@B.com'' ''pw'' ''TENANT'') empty_world))
            = Some (Pending (fetchUser_resume r)))
   \<and> user_var (snd (fetchUser_resume (Inr (Parsed JNull)) (snd (setUser alice empty_world)))) = None"
proof -
  let ?w = "snd (setUser alice empty_world)"
  have h: "user_var ?w \<noteq> None"
    by (simp add: setUser_def)
  have f: "\<not> truthy (Parsed JNull)"
    by simp
  have p: "snd (snd (Client signed_in (Register ''A@B.com'' ''pw'' ''TENANT'') empty_world))
      = Some (Pending (fetchUser_resume (fst (userAuthenticated signed_in
          (empty_world\<lparr>sent := sent empty_world
              @ [register_request signed_in ''A@B.com'' ''pw'' ''TENANT'']\<rparr>)))))"
    by (simp add: case_prod_beta register_unfold postAuthRequest_result fetchUser_call_miss
          empty_world_cache signed_in_def answering_def)
  from cache_emptied_only_by_fetchUser
         [where E = signed_out and s = ?w and c = Logout and a = "Parsed JNull" and w = ?w] h f
  have 1: "user_var (fst (snd (Client signed_out Logout ?w))) \<noteq> None
           \<and> user_var (snd (fetchUser_resume (Inr (Parsed JNull)) ?w)) = None"
    by blast
  from cache_emptied_only_by_fetchUser
         [where E = signed_in and s = empty_world and c = "Register ''A@B.com'' ''pw'' ''TENANT''"] p
  have 2: "\<exists>r. snd (snd (Client signed_in (Register ''A@B.com'' ''pw'' ''TENANT'') empty_world))
            = Some (Pending (fetchUser_resume r))"
    by (simp add: p)
  from h 1 2 show ?thesis by simp
qed

end
